theory Spec2Isabelle
  imports Main "HOL-Library.Word" "HOL-Library.AList"
begin

section \<open>Values, panics and the helpers of the standard library\<close>

text \<open>
  The request trees of the hook package are Go values of type \<^verbatim>\<open>interface{}\<close>.  The
  dynamic types that the package inspects are: the nil interface, scalars,
  \<^verbatim>\<open>[]interface{}\<close>, \<^verbatim>\<open>map[string]interface{}\<close> and (in \<^verbatim>\<open>ReplaceParameter\<close>) the
  pointer type \<^verbatim>\<open>*map[string]interface{}\<close>.  A map is an association list read with
  \<^const>\<open>map_of\<close> and written with \<^const>\<open>AList.update\<close>; a pointer to a map carries the
  map it points to (the trees of one request are not shared, so no store is needed).
\<close>

datatype val =
    VNil
  | VBool bool
  | VNum string
  | VStr string
  | VSlice "val list"
  | VMap "(string \<times> val) list"
  | VPtr "(string \<times> val) list"

text \<open>
  A failed type assertion \<^verbatim>\<open>x.(T)\<close>, an index outside a slice and the dereference of
  a nil pointer are run-time panics of Go.  Every function that can reach one returns
  \<open>panic + result\<close>.
\<close>

datatype panic = InterfaceConversion | IndexOutOfRange | NilDereference

text \<open>\<^verbatim>\<open>strings.SplitN(s, sep, 2)\<close> for a one-byte separator: one piece when \<open>sep\<close>
  does not occur, else the text before and the text after its first occurrence.\<close>

definition SplitN_2 :: "string \<Rightarrow> char \<Rightarrow> string list" where
  "SplitN_2 s sep =
     (if sep \<in> set s
      then [takeWhile (\<lambda>c. c \<noteq> sep) s, tl (dropWhile (\<lambda>c. c \<noteq> sep) s)]
      else [s])"

text \<open>\<^verbatim>\<open>strconv.ParseUint(s, 10, 64)\<close>: a non-empty string of decimal digits whose value
  fits 64 bits; \<open>None\<close> stands for a non-nil \<^verbatim>\<open>err\<close> (syntax or range).\<close>

definition isDigit :: "char \<Rightarrow> bool" where
  "isDigit c = (48 \<le> (of_char c :: nat) \<and> (of_char c :: nat) \<le> 57)"

definition digitsValue :: "string \<Rightarrow> nat" where
  "digitsValue s = foldl (\<lambda>acc c. acc * 10 + ((of_char c :: nat) - 48)) 0 s"

definition ParseUint :: "string \<Rightarrow> 64 word option" where
  "ParseUint s =
     (if s = [] \<or> \<not> list_all isDigit s then None
      else if digitsValue s < 2 ^ 64 then Some (word_of_nat (digitsValue s))
      else None)"

text \<open>The conversion \<^verbatim>\<open>int(index)\<close> of a \<^verbatim>\<open>uint64\<close> on a 64-bit platform keeps the
  bits and reads them as two's complement: \<^const>\<open>sint\<close>.  The length of a slice is an
  \<^verbatim>\<open>int\<close>.\<close>

definition sliceIndexRejected :: "'a list \<Rightarrow> 64 word \<Rightarrow> bool" where
  "sliceIndexRejected xs index = (int (length xs) \<le> sint index)"

section \<open>Parameter resolver\<close>

text \<open>
  \<^verbatim>\<open>GetParameter(s, params)\<close>.  The first equation is \<^verbatim>\<open>params == nil\<close>; the second is
  \<^verbatim>\<open>reflect.ValueOf(params).Kind() == reflect.Slice\<close>; the remaining ones are the code
  after the slice block, for a map, where every type assertion
  \<^verbatim>\<open>params.(map[string]interface{})\<close> succeeds, and for any other dynamic type, where
  the branch of a dotted path tests the kind first and the branch of a path without a
  dot asserts the map type unchecked.  The slice is indexed with the \<^verbatim>\<open>uint64\<close> itself,
  which panics outside the slice.
\<close>

function GetParameter :: "string \<Rightarrow> val \<Rightarrow> panic + (val \<times> bool)" where
  "GetParameter s VNil = Inr (VNil, False)"
| "GetParameter s (VSlice xs) =
     (if 0 < length xs then
        (let p = SplitN_2 s (CHR ''.'') in
         if 1 < length p then
           (case ParseUint (p ! 0) of
              None \<Rightarrow> Inr (VNil, False)
            | Some index \<Rightarrow>
                if sliceIndexRejected xs index then Inr (VNil, False)
                else if unat index < length xs then GetParameter (p ! 1) (xs ! unat index)
                else Inl IndexOutOfRange)
         else
           (case ParseUint s of
              None \<Rightarrow> Inr (VNil, False)
            | Some index \<Rightarrow>
                if sliceIndexRejected xs index then Inr (VNil, False)
                else if unat index < length xs then Inr (xs ! unat index, True)
                else Inl IndexOutOfRange))
      else Inr (VNil, False))"
| "GetParameter s (VMap m) =
     (let p = SplitN_2 s (CHR ''.'') in
      if 1 < length p then
        (case map_of m (p ! 0) of
           Some pValue \<Rightarrow> GetParameter (p ! 1) pValue
         | None \<Rightarrow> Inr (VNil, False))
      else
        (case map_of m (p ! 0) of
           Some pValue \<Rightarrow> Inr (pValue, True)
         | None \<Rightarrow> Inr (VNil, False)))"
| "GetParameter s (VBool b) =
     (if 1 < length (SplitN_2 s (CHR ''.'')) then Inr (VNil, False) else Inl InterfaceConversion)"
| "GetParameter s (VNum n) =
     (if 1 < length (SplitN_2 s (CHR ''.'')) then Inr (VNil, False) else Inl InterfaceConversion)"
| "GetParameter s (VStr t) =
     (if 1 < length (SplitN_2 s (CHR ''.'')) then Inr (VNil, False) else Inl InterfaceConversion)"
| "GetParameter s (VPtr m) =
     (if 1 < length (SplitN_2 s (CHR ''.'')) then Inr (VNil, False) else Inl InterfaceConversion)"
  by pat_completeness auto

text \<open>Termination: the recursive call is on the text after the first dot, which is
  shorter than the path.\<close>

termination
proof -
  have shorter: "length (SplitN_2 s (CHR ''.'') ! Suc 0) < length s"
    if "Suc 0 < length (SplitN_2 s (CHR ''.''))" for s
    using that length_dropWhile_le [of "\<lambda>c. c \<noteq> CHR ''.''" s]
    by (cases "dropWhile (\<lambda>c. c \<noteq> CHR ''.'') s")
      (auto simp: SplitN_2_def dropWhile_eq_Nil_conv split: if_splits)
  show ?thesis
    by (relation "measure (\<lambda>(s, params). length s)") (auto simp: shorter)
qed

text \<open>
  \<^verbatim>\<open>ReplaceParameter(s, params, value)\<close> returns its boolean together with the value
  \<open>params\<close> stands for after the call: the assignment of the last branch writes through
  the pointer, and a change below a map entry or a slice element is seen from the
  enclosing value, because Go maps and pointers are references.  The branch of a dotted
  path asserts \<^verbatim>\<open>params.(map[string]interface{})\<close> and the branch of a path without a
  dot asserts \<^verbatim>\<open>params.(*map[string]interface{})\<close>; each panics on every other
  dynamic type.
\<close>

function ReplaceParameter :: "string \<Rightarrow> val \<Rightarrow> val \<Rightarrow> panic + (bool \<times> val)" where
  "ReplaceParameter s VNil v = Inr (False, VNil)"
| "ReplaceParameter s (VSlice xs) v =
     (if 0 < length xs then
        (let p = SplitN_2 s (CHR ''.'') in
         if 1 < length p then
           (case ParseUint (p ! 0) of
              None \<Rightarrow> Inr (False, VSlice xs)
            | Some index \<Rightarrow>
                if sliceIndexRejected xs index then Inr (False, VSlice xs)
                else if unat index < length xs then
                  (case ReplaceParameter (p ! 1) (xs ! unat index) v of
                     Inl pn \<Rightarrow> Inl pn
                   | Inr (ok, x') \<Rightarrow> Inr (ok, VSlice (xs[unat index := x'])))
                else Inl IndexOutOfRange)
         else Inr (False, VSlice xs))
      else Inr (False, VSlice xs))"
| "ReplaceParameter s (VMap m) v =
     (let p = SplitN_2 s (CHR ''.'') in
      if 1 < length p then
        (case map_of m (p ! 0) of
           Some pValue \<Rightarrow>
             (case ReplaceParameter (p ! 1) pValue v of
                Inl pn \<Rightarrow> Inl pn
              | Inr (ok, x') \<Rightarrow> Inr (ok, VMap (AList.update (p ! 0) x' m)))
         | None \<Rightarrow> Inr (False, VMap m))
      else Inl InterfaceConversion)"
| "ReplaceParameter s (VPtr m) v =
     (let p = SplitN_2 s (CHR ''.'') in
      if 1 < length p then Inl InterfaceConversion
      else
        (case map_of m (p ! 0) of
           Some old \<Rightarrow> Inr (True, VPtr (AList.update (p ! 0) v m))
         | None \<Rightarrow> Inr (False, VPtr m)))"
| "ReplaceParameter s (VBool b) v = Inl InterfaceConversion"
| "ReplaceParameter s (VNum n) v = Inl InterfaceConversion"
| "ReplaceParameter s (VStr t) v = Inl InterfaceConversion"
  by pat_completeness auto

termination
proof -
  have shorter: "length (SplitN_2 s (CHR ''.'') ! Suc 0) < length s"
    if "Suc 0 < length (SplitN_2 s (CHR ''.''))" for s
    using that length_dropWhile_le [of "\<lambda>c. c \<noteq> CHR ''.''" s]
    by (cases "dropWhile (\<lambda>c. c \<noteq> CHR ''.'') s")
      (auto simp: SplitN_2_def dropWhile_eq_Nil_conv split: if_splits)
  show ?thesis
    by (relation "measure (\<lambda>(s, params, v). length s)") (auto simp: shorter)
qed

section \<open>Arguments, errors and the library the package calls\<close>

text \<open>The constants of the parameter sources, of the match types and of the
  environment prefix.\<close>

definition SourceHeader :: string where "SourceHeader = ''header''"
definition SourceQuery :: string where "SourceQuery = ''url''"
definition SourcePayload :: string where "SourcePayload = ''payload''"
definition SourceString :: string where "SourceString = ''string''"
definition SourceEntirePayload :: string where "SourceEntirePayload = ''entire-payload''"
definition SourceEntireQuery :: string where "SourceEntireQuery = ''entire-query''"
definition SourceEntireHeaders :: string where "SourceEntireHeaders = ''entire-headers''"

definition EnvNamespace :: string where "EnvNamespace = ''HOOK_''"

definition MatchValue :: string where "MatchValue = ''value''"
definition MatchRegex :: string where "MatchRegex = ''regex''"
definition MatchHashSHA1 :: string where "MatchHashSHA1 = ''payload-hash-sha1''"

record Argument =
  Source :: string
  Name :: string

text \<open>An error of a library (\<^verbatim>\<open>encoding/json\<close>, \<^verbatim>\<open>regexp\<close>) is kept as its message.\<close>

type_synonym lib_error = string

datatype error =
    SignatureError string
  | ArgumentError Argument
  | SourceError Argument
  | ParseError lib_error
  | LibError lib_error

text \<open>
  The functions of the Go standard library that the package calls are parameters of the
  model.  \<open>Sprintf_v\<close> is \<^verbatim>\<open>fmt.Sprintf("%v", x)\<close>; \<open>json_Marshal\<close> is
  \<^verbatim>\<open>json.Marshal\<close> of a pointer to a tree (\<open>None\<close> the nil pointer); \<open>json_Decode\<close> is a
  \<^verbatim>\<open>json.Decoder\<close> with \<^verbatim>\<open>UseNumber\<close> decoding into a \<^verbatim>\<open>map[string]interface{}\<close>;
  \<open>regexp_MatchString\<close> is \<^verbatim>\<open>regexp.MatchString(pattern, s)\<close> with both of its results;
  \<open>hmac_sha1_hex key msg\<close> is \<^verbatim>\<open>hex.EncodeToString\<close> of the HMAC-SHA1 of \<open>msg\<close> under
  \<open>key\<close>.  Writing to a hash never returns an error, so that branch of
  \<^verbatim>\<open>CheckPayloadSignature\<close> has no counterpart.
\<close>

record lib =
  Sprintf_v :: "val \<Rightarrow> string"
  json_Marshal :: "(string \<times> val) list option \<Rightarrow> lib_error + string"
  json_Decode :: "string \<Rightarrow> lib_error + (string \<times> val) list"
  regexp_MatchString :: "string \<Rightarrow> string \<Rightarrow> bool \<times> lib_error option"
  hmac_sha1_hex :: "string \<Rightarrow> string \<Rightarrow> string"

section \<open>Signature verifier\<close>

definition HasPrefix :: "string \<Rightarrow> string \<Rightarrow> bool" where
  "HasPrefix s pre = (length pre \<le> length s \<and> take (length pre) s = pre)"

text \<open>\<^verbatim>\<open>hmac.Equal\<close> compares two byte strings (in constant time).\<close>

definition hmac_Equal :: "string \<Rightarrow> string \<Rightarrow> bool" where
  "hmac_Equal a b = (a = b)"

definition CheckPayloadSignature :: "lib \<Rightarrow> string \<Rightarrow> string \<Rightarrow> string \<Rightarrow> string \<times> error option" where
  "CheckPayloadSignature L payload secret signature =
     (let signature1 = (if HasPrefix signature ''sha1='' then drop 5 signature else signature);
          expectedMAC = hmac_sha1_hex L secret payload
      in if \<not> hmac_Equal signature1 expectedMAC
         then (expectedMAC, Some (SignatureError expectedMAC))
         else (expectedMAC, None))"

section \<open>Argument resolver\<close>

definition ExtractParameterAsString :: "lib \<Rightarrow> string \<Rightarrow> val \<Rightarrow> panic + (string \<times> bool)" where
  "ExtractParameterAsString L s params =
     (case GetParameter s params of
        Inl pn \<Rightarrow> Inl pn
      | Inr (pValue, ok) \<Rightarrow> if ok then Inr (Sprintf_v L pValue, True) else Inr ([], False))"

text \<open>The three trees reach the package as pointers to maps; \<open>None\<close> is the nil
  pointer.\<close>

type_synonym tree = "(string \<times> val) list option"

definition marshalled :: "lib \<Rightarrow> tree \<Rightarrow> panic + (string \<times> bool)" where
  "marshalled L t =
     (case json_Marshal L t of Inl err \<Rightarrow> Inr ([], False) | Inr r \<Rightarrow> Inr (r, True))"

text \<open>The code after the \<^verbatim>\<open>switch\<close> of \<^verbatim>\<open>Argument.Get\<close>: \<^verbatim>\<open>source != nil\<close> passes the map
  itself, \<^verbatim>\<open>*source\<close>, to \<^verbatim>\<open>ExtractParameterAsString\<close>.\<close>

definition fromSource :: "lib \<Rightarrow> Argument \<Rightarrow> tree \<Rightarrow> panic + (string \<times> bool)" where
  "fromSource L ha source =
     (case source of
        Some m \<Rightarrow> ExtractParameterAsString L (Name ha) (VMap m)
      | None \<Rightarrow> Inr ([], False))"

definition Argument_Get :: "lib \<Rightarrow> Argument \<Rightarrow> tree \<Rightarrow> tree \<Rightarrow> tree \<Rightarrow> panic + (string \<times> bool)" where
  "Argument_Get L ha headers query payload =
     (if Source ha = SourceHeader then fromSource L ha headers
      else if Source ha = SourceQuery then fromSource L ha query
      else if Source ha = SourcePayload then fromSource L ha payload
      else if Source ha = SourceString then Inr (Name ha, True)
      else if Source ha = SourceEntirePayload then marshalled L payload
      else if Source ha = SourceEntireHeaders then marshalled L headers
      else if Source ha = SourceEntireQuery then marshalled L query
      else fromSource L ha None)"

section \<open>Rule evaluator\<close>

record MatchRule =
  Type :: string
  Regex :: string
  Secret :: string
  Value :: string
  Parameter :: Argument

text \<open>A \<^verbatim>\<open>Rules\<close> value has four pointer fields; \<open>None\<close> is \<^verbatim>\<open>nil\<close>.  \<^verbatim>\<open>AndRule\<close> and
  \<^verbatim>\<open>OrRule\<close> are slices of \<^verbatim>\<open>Rules\<close>, \<^verbatim>\<open>NotRule\<close> is a \<^verbatim>\<open>Rules\<close>.  The field \<^verbatim>\<open>Not\<close> is
  written \<open>Not'\<close>, apart from the negation of HOL.\<close>

datatype Rules =
  Rules (And: "Rules list option") (Or: "Rules list option") (Not': "Rules option")
    (Match: "MatchRule option")

text \<open>The request body is a pointer to a byte slice, dereferenced only by the
  signature match.\<close>

definition MatchRule_Evaluate ::
    "lib \<Rightarrow> MatchRule \<Rightarrow> tree \<Rightarrow> tree \<Rightarrow> tree \<Rightarrow> string option \<Rightarrow> panic + (bool \<times> error option)" where
  "MatchRule_Evaluate L r headers query payload body =
     (case Argument_Get L (Parameter r) headers query payload of
        Inl pn \<Rightarrow> Inl pn
      | Inr (arg, ok) \<Rightarrow>
          if ok then
            (if Type r = MatchValue then Inr (arg = Value r, None)
             else if Type r = MatchRegex then
               (case regexp_MatchString L (Regex r) arg of
                  (matched, err) \<Rightarrow> Inr (matched, map_option LibError err))
             else if Type r = MatchHashSHA1 then
               (case body of
                  None \<Rightarrow> Inl NilDereference
                | Some b \<Rightarrow>
                    (case CheckPayloadSignature L b (Secret r) arg of
                       (mac, err) \<Rightarrow> Inr (err = None, err)))
             else Inr (False, None))
          else Inr (False, None))"

text \<open>
  \<^verbatim>\<open>Rules.Evaluate\<close> is the \<^verbatim>\<open>switch\<close> over the four fields in the order of its cases.
  The two loops carry \<open>res\<close>: \<open>AndRule_loop\<close> and \<open>OrRule_loop\<close> are the bodies of the
  \<^verbatim>\<open>for ... range r\<close> of \<^verbatim>\<open>AndRule.Evaluate\<close> and \<^verbatim>\<open>OrRule.Evaluate\<close> on the rest of the
  slice.
\<close>

type_synonym verdict = "panic + (bool \<times> error option)"

function (sequential) Rules_Evaluate :: "lib \<Rightarrow> Rules \<Rightarrow> tree \<Rightarrow> tree \<Rightarrow> tree \<Rightarrow> string option \<Rightarrow> verdict"
  and AndRule_Evaluate :: "lib \<Rightarrow> Rules list \<Rightarrow> tree \<Rightarrow> tree \<Rightarrow> tree \<Rightarrow> string option \<Rightarrow> verdict"
  and AndRule_loop :: "lib \<Rightarrow> bool \<Rightarrow> Rules list \<Rightarrow> tree \<Rightarrow> tree \<Rightarrow> tree \<Rightarrow> string option \<Rightarrow> verdict"
  and OrRule_Evaluate :: "lib \<Rightarrow> Rules list \<Rightarrow> tree \<Rightarrow> tree \<Rightarrow> tree \<Rightarrow> string option \<Rightarrow> verdict"
  and OrRule_loop :: "lib \<Rightarrow> bool \<Rightarrow> Rules list \<Rightarrow> tree \<Rightarrow> tree \<Rightarrow> tree \<Rightarrow> string option \<Rightarrow> verdict"
  and NotRule_Evaluate :: "lib \<Rightarrow> Rules \<Rightarrow> tree \<Rightarrow> tree \<Rightarrow> tree \<Rightarrow> string option \<Rightarrow> verdict"
  where
  "Rules_Evaluate L (Rules (Some a) or' not' match) headers query payload body =
     AndRule_Evaluate L a headers query payload body"
| "Rules_Evaluate L (Rules None (Some or') not' match) headers query payload body =
     OrRule_Evaluate L or' headers query payload body"
| "Rules_Evaluate L (Rules None None (Some not') match) headers query payload body =
     NotRule_Evaluate L not' headers query payload body"
| "Rules_Evaluate L (Rules None None None (Some match)) headers query payload body =
     MatchRule_Evaluate L match headers query payload body"
| "Rules_Evaluate L (Rules None None None None) headers query payload body =
     Inr (False, None)"
| "AndRule_Evaluate L r headers query payload body =
     AndRule_loop L True r headers query payload body"
| "AndRule_loop L res [] headers query payload body = Inr (res, None)"
| "AndRule_loop L res (v # vs) headers query payload body =
     (case Rules_Evaluate L v headers query payload body of
        Inl pn \<Rightarrow> Inl pn
      | Inr (rv, Some err) \<Rightarrow> Inr (False, Some err)
      | Inr (rv, None) \<Rightarrow>
          (let res' = (res \<and> rv) in
           if res' = False then Inr (res', None)
           else AndRule_loop L res' vs headers query payload body))"
| "OrRule_Evaluate L r headers query payload body =
     OrRule_loop L False r headers query payload body"
| "OrRule_loop L res [] headers query payload body = Inr (res, None)"
| "OrRule_loop L res (v # vs) headers query payload body =
     (case Rules_Evaluate L v headers query payload body of
        Inl pn \<Rightarrow> Inl pn
      | Inr (rv, Some err) \<Rightarrow> Inr (False, Some err)
      | Inr (rv, None) \<Rightarrow>
          (let res' = (res \<or> rv) in
           if res' = True then Inr (res', None)
           else OrRule_loop L res' vs headers query payload body))"
| "NotRule_Evaluate L r headers query payload body =
     (case Rules_Evaluate L r headers query payload body of
        Inl pn \<Rightarrow> Inl pn
      | Inr (rv, err) \<Rightarrow> Inr (\<not> rv, err))"
  by pat_completeness auto

text \<open>Termination: every call goes to a smaller rule or list of rules, or stays on
  the same one and moves from \<open>NotRule_Evaluate\<close>, \<open>AndRule_Evaluate\<close> or
  \<open>OrRule_Evaluate\<close> to the function it calls first.\<close>

termination
  by (relation "measure (\<lambda>x. case x of
        Inl (Inl (L, r, t)) \<Rightarrow> 2 * size r
      | Inl (Inr (Inl (L, a, t))) \<Rightarrow> 2 * size_list size a + 1
      | Inl (Inr (Inr (L, res, a, t))) \<Rightarrow> 2 * size_list size a
      | Inr (Inl (L, a, t)) \<Rightarrow> 2 * size_list size a + 1
      | Inr (Inr (Inl (L, res, a, t))) \<Rightarrow> 2 * size_list size a
      | Inr (Inr (Inr (L, r, t))) \<Rightarrow> 2 * size r + 1)") simp_all

section \<open>Hook extraction\<close>

record Hook =
  ID :: string
  ExecuteCommand :: string
  CommandWorkingDirectory :: string
  ResponseMessage :: string
  ResponseHeaders :: "(string \<times> string) list"
  CaptureCommandOutput :: bool
  PassEnvironmentToCommand :: "Argument list"
  PassArgumentsToCommand :: "Argument list"
  JSONStringParameters :: "Argument list"
  TriggerRule :: "Rules option"

text \<open>
  \<^verbatim>\<open>ParseJSONParameters\<close> writes into the trees it is given, so the model returns the
  three trees with the error.  \<open>spliced\<close> is the code after the \<^verbatim>\<open>switch\<close> on the source:
  for a non-nil \<^verbatim>\<open>source\<close> the call \<^verbatim>\<open>ReplaceParameter(name, source, newArg)\<close> on the
  pointer, whose boolean is dropped, and the tree the pointer shows afterwards; for a
  nil \<^verbatim>\<open>source\<close> the \<^verbatim>\<open>SourceError\<close>.
\<close>

definition spliced :: "Argument \<Rightarrow> tree \<Rightarrow> (string \<times> val) list \<Rightarrow> panic + (error option \<times> tree)" where
  "spliced a source newArg =
     (case source of
        None \<Rightarrow> Inr (Some (SourceError a), None)
      | Some m \<Rightarrow>
          (case ReplaceParameter (Name a) (VPtr m) (VMap newArg) of
             Inl pn \<Rightarrow> Inl pn
           | Inr (ok, after) \<Rightarrow>
               Inr (None, (case after of VPtr m' \<Rightarrow> Some m' | _ \<Rightarrow> Some m))))"

type_synonym trees = "tree \<times> tree \<times> tree"

fun ParseJSONParameters_loop ::
    "lib \<Rightarrow> Argument list \<Rightarrow> tree \<Rightarrow> tree \<Rightarrow> tree \<Rightarrow> panic + (error option \<times> trees)" where
  "ParseJSONParameters_loop L [] headers query payload = Inr (None, headers, query, payload)"
| "ParseJSONParameters_loop L (a # as) headers query payload =
     (case Argument_Get L a headers query payload of
        Inl pn \<Rightarrow> Inl pn
      | Inr (arg, ok) \<Rightarrow>
          if ok then
            (case json_Decode L arg of
               Inl err \<Rightarrow> Inr (Some (ParseError err), headers, query, payload)
             | Inr newArg \<Rightarrow>
                 if Source a = SourceHeader then
                   (case spliced a headers newArg of
                      Inl pn \<Rightarrow> Inl pn
                    | Inr (Some e, headers') \<Rightarrow> Inr (Some e, headers, query, payload)
                    | Inr (None, headers') \<Rightarrow> ParseJSONParameters_loop L as headers' query payload)
                 else if Source a = SourcePayload then
                   (case spliced a payload newArg of
                      Inl pn \<Rightarrow> Inl pn
                    | Inr (Some e, payload') \<Rightarrow> Inr (Some e, headers, query, payload)
                    | Inr (None, payload') \<Rightarrow> ParseJSONParameters_loop L as headers query payload')
                 else if Source a = SourceQuery then
                   (case spliced a query newArg of
                      Inl pn \<Rightarrow> Inl pn
                    | Inr (Some e, query') \<Rightarrow> Inr (Some e, headers, query, payload)
                    | Inr (None, query') \<Rightarrow> ParseJSONParameters_loop L as headers query' payload)
                 else Inr (Some (SourceError a), headers, query, payload))
          else Inr (Some (ArgumentError a), headers, query, payload))"

definition ParseJSONParameters ::
    "lib \<Rightarrow> Hook \<Rightarrow> tree \<Rightarrow> tree \<Rightarrow> tree \<Rightarrow> panic + (error option \<times> trees)" where
  "ParseJSONParameters L h headers query payload =
     ParseJSONParameters_loop L (JSONStringParameters h) headers query payload"

text \<open>The two extraction loops carry the slice \<open>args\<close> built so far.\<close>

fun ExtractCommandArguments_loop ::
    "lib \<Rightarrow> string list \<Rightarrow> Argument list \<Rightarrow> tree \<Rightarrow> tree \<Rightarrow> tree \<Rightarrow> panic + (string list \<times> error option)" where
  "ExtractCommandArguments_loop L args [] headers query payload = Inr (args, None)"
| "ExtractCommandArguments_loop L args (a # as) headers query payload =
     (case Argument_Get L a headers query payload of
        Inl pn \<Rightarrow> Inl pn
      | Inr (arg, ok) \<Rightarrow>
          if ok then ExtractCommandArguments_loop L (args @ [arg]) as headers query payload
          else Inr (args @ [[]], Some (ArgumentError a)))"

definition ExtractCommandArguments ::
    "lib \<Rightarrow> Hook \<Rightarrow> tree \<Rightarrow> tree \<Rightarrow> tree \<Rightarrow> panic + (string list \<times> error option)" where
  "ExtractCommandArguments L h headers query payload =
     ExtractCommandArguments_loop L ([] @ [ExecuteCommand h]) (PassArgumentsToCommand h)
       headers query payload"

fun ExtractCommandArgumentsForEnv_loop ::
    "lib \<Rightarrow> string list \<Rightarrow> Argument list \<Rightarrow> tree \<Rightarrow> tree \<Rightarrow> tree \<Rightarrow> panic + (string list \<times> error option)" where
  "ExtractCommandArgumentsForEnv_loop L args [] headers query payload = Inr (args, None)"
| "ExtractCommandArgumentsForEnv_loop L args (a # as) headers query payload =
     (case Argument_Get L a headers query payload of
        Inl pn \<Rightarrow> Inl pn
      | Inr (arg, ok) \<Rightarrow>
          if ok then
            ExtractCommandArgumentsForEnv_loop L (args @ [EnvNamespace @ Name a @ ''='' @ arg]) as
              headers query payload
          else Inr (args, Some (ArgumentError a)))"

definition ExtractCommandArgumentsForEnv ::
    "lib \<Rightarrow> Hook \<Rightarrow> tree \<Rightarrow> tree \<Rightarrow> tree \<Rightarrow> panic + (string list \<times> error option)" where
  "ExtractCommandArgumentsForEnv L h headers query payload =
     ExtractCommandArgumentsForEnv_loop L [] (PassEnvironmentToCommand h) headers query payload"

section \<open>Concrete inputs\<close>

text \<open>
  The theorems below are run on concrete requests.  \<open>sampleLib\<close> fixes the library
  there: \<^verbatim>\<open>%v\<close> prints a string and a \<^verbatim>\<open>json.Number\<close> as they are, \<open>{}\<close> decodes to the
  empty object, the pattern \<open>(\<close> does not compile, and the HMAC-SHA1 is the one of the
  message \<open>hello\<close> under the key \<open>s\<close>.  \<open>zeroHook\<close> is the zero value \<^verbatim>\<open>Hook{}\<close>.
\<close>

definition sampleLib :: lib where
  "sampleLib =
     \<lparr> Sprintf_v = (\<lambda>v. case v of VStr s \<Rightarrow> s | VNum n \<Rightarrow> n | _ \<Rightarrow> ''?''),
       json_Marshal = (\<lambda>t. Inr ''{}''),
       json_Decode = (\<lambda>s. if s = ''{}'' then Inr [] else Inl ''invalid character''),
       regexp_MatchString =
         (\<lambda>pat s. if pat = ''('' then (False, Some ''missing closing )'') else (pat = s, None)),
       hmac_sha1_hex = (\<lambda>key msg. ''c5146965fa21598d00e9306e083a4efa53faf91e'') \<rparr>"

definition zeroHook :: Hook where
  "zeroHook =
     \<lparr> ID = [], ExecuteCommand = [], CommandWorkingDirectory = [], ResponseMessage = [],
       ResponseHeaders = [], CaptureCommandOutput = False, PassEnvironmentToCommand = [],
       PassArgumentsToCommand = [], JSONStringParameters = [], TriggerRule = None \<rparr>"

lemmas source_defs = SourceHeader_def SourceQuery_def SourcePayload_def SourceString_def
  SourceEntirePayload_def SourceEntireQuery_def SourceEntireHeaders_def

lemmas match_defs = MatchValue_def MatchRegex_def MatchHashSHA1_def

lemmas index_eval = ParseUint_def isDigit_def digitsValue_def sliceIndexRejected_def

lemmas lib_eval = sampleLib_def source_defs match_defs Argument_Get_def fromSource_def
  marshalled_def ExtractParameterAsString_def MatchRule_Evaluate_def CheckPayloadSignature_def
  HasPrefix_def hmac_Equal_def SplitN_2_def Let_def

section \<open>The parameter resolver\<close>

text \<open>
  Claim C1, the round trip on the tree \<open>{a: {b: 1}}\<close>.  \<^verbatim>\<open>GetParameter("a.b")\<close> returns
  \<open>(1, true)\<close>, but \<^verbatim>\<open>ReplaceParameter("a.b", tree, 2)\<close> does not return: given the map, it
  descends to the inner map and panics on the assertion of the pointer type; given a
  pointer to the map, it panics on the assertion of the map type before descending.
  When the inner node is a pointer to a map the replacement succeeds, and then it is
  \<^verbatim>\<open>GetParameter\<close> that panics.
\<close>

theorem ReplaceParameter_round_trip_panics:
  "GetParameter ''a.b'' (VMap [(''a'', VMap [(''b'', VNum ''1'')])]) = Inr (VNum ''1'', True)
   \<and> ReplaceParameter ''a.b'' (VMap [(''a'', VMap [(''b'', VNum ''1'')])]) (VNum ''2'')
       = Inl InterfaceConversion
   \<and> ReplaceParameter ''a.b'' (VPtr [(''a'', VMap [(''b'', VNum ''1'')])]) (VNum ''2'')
       = Inl InterfaceConversion
   \<and> ReplaceParameter ''a.b'' (VMap [(''a'', VPtr [(''b'', VNum ''1'')])]) (VNum ''2'')
       = Inr (True, VMap [(''a'', VPtr [(''b'', VNum ''2'')])])
   \<and> GetParameter ''a.b'' (VMap [(''a'', VPtr [(''b'', VNum ''1'')])]) = Inl InterfaceConversion"
  by (simp add: SplitN_2_def)

text \<open>No value at all has a path that \<^verbatim>\<open>GetParameter\<close> finds and \<^verbatim>\<open>ReplaceParameter\<close>
  replaces: where the first finds a value, the second panics or returns \<open>false\<close>.\<close>

lemma GetParameter_found_ReplaceParameter:
  "GetParameter s t = Inr (x, True) \<Longrightarrow> ReplaceParameter s t v = Inr (ok, t') \<Longrightarrow> \<not> ok"
proof (induction s t arbitrary: x ok t' rule: GetParameter.induct)
  case (2 s xs)
  show ?case
  proof (cases "Suc 0 < length (SplitN_2 s (CHR ''.''))")
    case True
    with "2.prems" obtain index where ix: "ParseUint (SplitN_2 s (CHR ''.'') ! 0) = Some index"
      "\<not> sliceIndexRejected xs index" "unat index < length xs" "xs \<noteq> []"
      and g: "GetParameter (SplitN_2 s (CHR ''.'') ! Suc 0) (xs ! unat index) = Inr (x, True)"
      by (auto simp: Let_def split: if_splits option.splits)
    from "2.prems"(2) True ix obtain c' where
      r: "ReplaceParameter (SplitN_2 s (CHR ''.'') ! Suc 0) (xs ! unat index) v = Inr (ok, c')"
      by (auto simp: Let_def split: sum.splits prod.splits)
    from "2.IH" [of "SplitN_2 s (CHR ''.'')" index x ok c'] True ix g r show ?thesis
      by simp
  next
    case False
    with "2.prems"(2) show ?thesis
      by (auto simp: Let_def split: if_splits)
  qed
next
  case (3 s m)
  show ?case
  proof (cases "Suc 0 < length (SplitN_2 s (CHR ''.''))")
    case True
    with "3.prems" obtain pValue where ix: "map_of m (SplitN_2 s (CHR ''.'') ! 0) = Some pValue"
      and g: "GetParameter (SplitN_2 s (CHR ''.'') ! Suc 0) pValue = Inr (x, True)"
      by (auto simp: Let_def split: if_splits option.splits)
    from "3.prems"(2) True ix obtain c' where
      r: "ReplaceParameter (SplitN_2 s (CHR ''.'') ! Suc 0) pValue v = Inr (ok, c')"
      by (auto simp: Let_def split: sum.splits prod.splits)
    from "3.IH" [of "SplitN_2 s (CHR ''.'')" pValue x ok c'] True ix g r show ?thesis
      by simp
  next
    case False
    with "3.prems"(2) show ?thesis
      by (auto simp: Let_def split: if_splits)
  qed
qed (auto split: if_splits)

lemma ReplaceParameter_dotted_pointer:
  "CHR ''.'' \<in> set s \<Longrightarrow> ReplaceParameter s (VPtr m) v = Inl InterfaceConversion"
  by (simp add: SplitN_2_def)

text \<open>
  Claim C2, \<^verbatim>\<open>GetParameter\<close> never panics.  It does, in two places.  An index from
  \<open>2^63\<close> on passes the test \<^verbatim>\<open>paramsValueSliceLength <= int(index)\<close>, because
  \<^verbatim>\<open>int(index)\<close> is negative, and the slice is then indexed out of range.  A scalar
  reached with a path that has no dot left is asserted to be a map.  The last two
  conjuncts are the examples of the specification, which hold.
\<close>

theorem GetParameter_panics:
  "GetParameter ''9223372036854775808'' (VSlice [VStr ''x'', VStr ''y'']) = Inl IndexOutOfRange
   \<and> GetParameter ''a.b'' (VMap [(''a'', VStr ''x'')]) = Inl InterfaceConversion
   \<and> GetParameter ''2'' (VSlice [VStr ''x'', VStr ''y'']) = Inr (VNil, False)
   \<and> GetParameter ''1'' (VSlice [VStr ''x'', VStr ''y'']) = Inr (VStr ''y'', True)"
  by (simp add: SplitN_2_def index_eval)

text \<open>What the claim says of the soft failures holds where the index stays below
  \<open>2^63\<close>: an index that does not parse, an index from the length of the slice on, and
  a key that the map does not hold are not found.\<close>

lemma SplitN_2_single: "\<not> Suc 0 < length (SplitN_2 s c) \<Longrightarrow> SplitN_2 s c ! 0 = s"
  by (simp add: SplitN_2_def split: if_splits)

lemma sint_small:
  assumes "unat (w :: 64 word) < 2 ^ 63"
  shows "sint w = int (unat w)"
proof -
  have "int (unat w) < int (2 ^ 63)"
    using assms by (simp only: of_nat_less_iff)
  then have "uint w < 2 ^ 63"
    by simp
  moreover have "- (2 ^ 63) \<le> uint w"
    by (rule order_trans [of _ 0]) simp_all
  ultimately have "signed_take_bit 63 (uint w) = uint w"
    by (intro signed_take_bit_int_eq_self)
  then show ?thesis
    by (simp add: sint_uint)
qed

lemma GetParameter_not_found:
  "(xs \<noteq> [] \<longrightarrow> ParseUint (SplitN_2 s (CHR ''.'') ! 0) = None \<longrightarrow>
      GetParameter s (VSlice xs) = Inr (VNil, False))
   \<and> (ParseUint (SplitN_2 s (CHR ''.'') ! 0) = Some index \<longrightarrow>
        length xs \<le> unat index \<longrightarrow> unat index < 2 ^ 63 \<longrightarrow>
      GetParameter s (VSlice xs) = Inr (VNil, False))
   \<and> (map_of m (SplitN_2 s (CHR ''.'') ! 0) = None \<longrightarrow>
      GetParameter s (VMap m) = Inr (VNil, False))"
  using SplitN_2_single [of s "CHR ''.''"]
  by (auto simp: Let_def sliceIndexRejected_def sint_small simp del: of_nat_unat)

section \<open>The signature verifier\<close>

text \<open>
  Claim C4.  \<^verbatim>\<open>CheckPayloadSignature\<close> always returns the computed hex
  \<open>hmac_sha1_hex L secret payload\<close> first.  A signature that starts with \<open>sha1=\<close> is
  compared without these five bytes, any other signature is compared whole; the error
  is \<^verbatim>\<open>nil\<close> when the compared text equals the computed hex and a \<^verbatim>\<open>SignatureError\<close> that
  carries the computed hex otherwise.
\<close>

theorem CheckPayloadSignature_result:
  "CheckPayloadSignature L payload secret (''sha1='' @ rest) =
     (hmac_sha1_hex L secret payload,
      if rest = hmac_sha1_hex L secret payload then None
      else Some (SignatureError (hmac_sha1_hex L secret payload)))
   \<and> (\<not> HasPrefix signature ''sha1='' \<longrightarrow>
        CheckPayloadSignature L payload secret signature =
          (hmac_sha1_hex L secret payload,
           if signature = hmac_sha1_hex L secret payload then None
           else Some (SignatureError (hmac_sha1_hex L secret payload))))"
  by (simp add: CheckPayloadSignature_def HasPrefix_def hmac_Equal_def Let_def)

text \<open>With the key \<open>s\<close> and the payload \<open>hello\<close>: the right signature, with and without
  the prefix, and a wrong one.\<close>

theorem CheckPayloadSignature_result_witness:
  "CheckPayloadSignature sampleLib ''hello'' ''s'' ''sha1=c5146965fa21598d00e9306e083a4efa53faf91e''
     = (''c5146965fa21598d00e9306e083a4efa53faf91e'', None)
   \<and> CheckPayloadSignature sampleLib ''hello'' ''s'' ''sha1=0000''
     = (''c5146965fa21598d00e9306e083a4efa53faf91e'',
        Some (SignatureError ''c5146965fa21598d00e9306e083a4efa53faf91e''))
   \<and> \<not> HasPrefix ''c5146965fa21598d00e9306e083a4efa53faf91e'' ''sha1=''
   \<and> CheckPayloadSignature sampleLib ''hello'' ''s'' ''c5146965fa21598d00e9306e083a4efa53faf91e''
     = (''c5146965fa21598d00e9306e083a4efa53faf91e'', None)"
  using CheckPayloadSignature_result [of sampleLib "''hello''" "''s''"
      "''c5146965fa21598d00e9306e083a4efa53faf91e''" "''c5146965fa21598d00e9306e083a4efa53faf91e''"]
    CheckPayloadSignature_result [of sampleLib "''hello''" "''s''" "''0000''" "''x''"]
  by (simp add: sampleLib_def HasPrefix_def)

section \<open>The rule evaluator\<close>

text \<open>
  Claim C3.  A match of type \<open>payload-hash-sha1\<close> whose parameter resolves to \<open>arg\<close>,
  on a request with a body \<open>b\<close>, returns the error of
  \<^verbatim>\<open>CheckPayloadSignature(b, Secret, arg)\<close> and the boolean that says this error is \<^verbatim>\<open>nil\<close>;
  so a failed verification returns \<open>false\<close> together with the \<^verbatim>\<open>SignatureError\<close> of the
  computed hex, never \<open>(false, nil)\<close>.  When the parameter does not resolve the match
  returns \<open>(false, nil)\<close>.
\<close>

theorem MatchRule_Evaluate_signature:
  "Type r = MatchHashSHA1 \<longrightarrow>
     (Argument_Get L (Parameter r) headers query payload = Inr (arg, True) \<longrightarrow>
        MatchRule_Evaluate L r headers query payload (Some b) =
          Inr (snd (CheckPayloadSignature L b (Secret r) arg) = None,
               snd (CheckPayloadSignature L b (Secret r) arg))
        \<and> (snd (CheckPayloadSignature L b (Secret r) arg) \<noteq> None \<longrightarrow>
             MatchRule_Evaluate L r headers query payload (Some b) =
               Inr (False, Some (SignatureError (hmac_sha1_hex L (Secret r) b)))))
     \<and> (Argument_Get L (Parameter r) headers query payload = Inr (arg, False) \<longrightarrow>
          MatchRule_Evaluate L r headers query payload body = Inr (False, None))"
  by (auto simp: MatchRule_Evaluate_def CheckPayloadSignature_def Let_def match_defs
      split: prod.splits)

text \<open>A header \<open>X-Sig\<close> with the right signature, with a wrong one, and a request
  without the header.\<close>

theorem MatchRule_Evaluate_signature_witness:
  "Type \<lparr>Type = ''payload-hash-sha1'', Regex = [], Secret = ''s'', Value = [],
         Parameter = \<lparr>Source = ''header'', Name = ''X-Sig''\<rparr>\<rparr> = MatchHashSHA1
   \<and> Argument_Get sampleLib \<lparr>Source = ''header'', Name = ''X-Sig''\<rparr>
        (Some [(''X-Sig'', VStr ''sha1=c5146965fa21598d00e9306e083a4efa53faf91e'')]) None None
       = Inr (''sha1=c5146965fa21598d00e9306e083a4efa53faf91e'', True)
   \<and> MatchRule_Evaluate sampleLib
        \<lparr>Type = ''payload-hash-sha1'', Regex = [], Secret = ''s'', Value = [],
         Parameter = \<lparr>Source = ''header'', Name = ''X-Sig''\<rparr>\<rparr>
        (Some [(''X-Sig'', VStr ''sha1=c5146965fa21598d00e9306e083a4efa53faf91e'')]) None None
        (Some ''hello'')
       = Inr (True, None)
   \<and> Argument_Get sampleLib \<lparr>Source = ''header'', Name = ''X-Sig''\<rparr>
        (Some [(''X-Sig'', VStr ''sha1=0000'')]) None None
       = Inr (''sha1=0000'', True)
   \<and> MatchRule_Evaluate sampleLib
        \<lparr>Type = ''payload-hash-sha1'', Regex = [], Secret = ''s'', Value = [],
         Parameter = \<lparr>Source = ''header'', Name = ''X-Sig''\<rparr>\<rparr>
        (Some [(''X-Sig'', VStr ''sha1=0000'')]) None None (Some ''hello'')
       = Inr (False, Some (SignatureError ''c5146965fa21598d00e9306e083a4efa53faf91e''))
   \<and> Argument_Get sampleLib \<lparr>Source = ''header'', Name = ''X-Sig''\<rparr> (Some []) None None
       = Inr ([], False)
   \<and> MatchRule_Evaluate sampleLib
        \<lparr>Type = ''payload-hash-sha1'', Regex = [], Secret = ''s'', Value = [],
         Parameter = \<lparr>Source = ''header'', Name = ''X-Sig''\<rparr>\<rparr>
        (Some []) None None (Some ''hello'')
       = Inr (False, None)"
  using
    MatchRule_Evaluate_signature [of
      "\<lparr>Type = ''payload-hash-sha1'', Regex = [], Secret = ''s'', Value = [],
        Parameter = \<lparr>Source = ''header'', Name = ''X-Sig''\<rparr>\<rparr>"
      sampleLib "Some [(''X-Sig'', VStr ''sha1=c5146965fa21598d00e9306e083a4efa53faf91e'')]"
      None None "''sha1=c5146965fa21598d00e9306e083a4efa53faf91e''" "''hello''" None]
    MatchRule_Evaluate_signature [of
      "\<lparr>Type = ''payload-hash-sha1'', Regex = [], Secret = ''s'', Value = [],
        Parameter = \<lparr>Source = ''header'', Name = ''X-Sig''\<rparr>\<rparr>"
      sampleLib "Some [(''X-Sig'', VStr ''sha1=0000'')]"
      None None "''sha1=0000''" "''hello''" None]
    MatchRule_Evaluate_signature [of
      "\<lparr>Type = ''payload-hash-sha1'', Regex = [], Secret = ''s'', Value = [],
        Parameter = \<lparr>Source = ''header'', Name = ''X-Sig''\<rparr>\<rparr>"
      sampleLib "Some []" None None "[]" "''hello''" "Some ''hello''"]
  by (simp add: lib_eval)

text \<open>
  Claim C5.  When the child of a \<^verbatim>\<open>Not\<close> node returns \<open>(rv, err)\<close>, the node returns
  \<open>(\<not> rv, err)\<close>: the boolean is negated and the error, \<^verbatim>\<open>nil\<close> or not, is the
  child's.  This holds for \<^verbatim>\<open>NotRule.Evaluate\<close> and for \<^verbatim>\<open>Rules.Evaluate\<close> on a node whose
  first populated field is \<^verbatim>\<open>Not\<close>.
\<close>

theorem NotRule_Evaluate_negates:
  "Rules_Evaluate L c headers query payload body = Inr (rv, err) \<Longrightarrow>
     NotRule_Evaluate L c headers query payload body = Inr (\<not> rv, err)
     \<and> Rules_Evaluate L (Rules None None (Some c) m) headers query payload body = Inr (\<not> rv, err)"
  by simp

text \<open>A child whose pattern does not compile returns \<open>false\<close> with the error, and its
  negation returns \<open>true\<close> with the same error; a child that matches is negated to
  \<open>(false, nil)\<close>.\<close>

theorem NotRule_Evaluate_negates_witness:
  "Rules_Evaluate sampleLib
      (Rules None None None
        (Some \<lparr>Type = ''regex'', Regex = ''('', Secret = [], Value = [],
               Parameter = \<lparr>Source = ''string'', Name = ''x''\<rparr>\<rparr>))
      None None None None
     = Inr (False, Some (LibError ''missing closing )''))
   \<and> NotRule_Evaluate sampleLib
      (Rules None None None
        (Some \<lparr>Type = ''regex'', Regex = ''('', Secret = [], Value = [],
               Parameter = \<lparr>Source = ''string'', Name = ''x''\<rparr>\<rparr>))
      None None None None
     = Inr (True, Some (LibError ''missing closing )''))
   \<and> Rules_Evaluate sampleLib
      (Rules None None
        (Some (Rules None None None
          (Some \<lparr>Type = ''value'', Regex = [], Secret = [], Value = ''x'',
                 Parameter = \<lparr>Source = ''string'', Name = ''x''\<rparr>\<rparr>)))
        None)
      None None None None
     = Inr (False, None)"
  using
    NotRule_Evaluate_negates [of sampleLib
      "Rules None None None
        (Some \<lparr>Type = ''regex'', Regex = ''('', Secret = [], Value = [],
               Parameter = \<lparr>Source = ''string'', Name = ''x''\<rparr>\<rparr>)"
      None None None None False "Some (LibError ''missing closing )'')" None]
    NotRule_Evaluate_negates [of sampleLib
      "Rules None None None
          (Some \<lparr>Type = ''value'', Regex = [], Secret = [], Value = ''x'',
                 Parameter = \<lparr>Source = ''string'', Name = ''x''\<rparr>\<rparr>)"
      None None None None True None None]
  by (simp add: lib_eval)

lemma AndRule_loop_true_prefix:
  "\<forall>v\<in>set pre. Rules_Evaluate L v headers query payload body = Inr (True, None) \<Longrightarrow>
     AndRule_loop L True (pre @ rest) headers query payload body =
     AndRule_loop L True rest headers query payload body"
  by (induction pre) simp_all

lemma OrRule_loop_false_prefix:
  "\<forall>v\<in>set pre. Rules_Evaluate L v headers query payload body = Inr (False, None) \<Longrightarrow>
     OrRule_loop L False (pre @ rest) headers query payload body =
     OrRule_loop L False rest headers query payload body"
  by (induction pre) simp_all

text \<open>
  Claim C6.  \<^verbatim>\<open>And\<close> of no rule is \<open>(true, nil)\<close> and \<^verbatim>\<open>Or\<close> of no rule is
  \<open>(false, nil)\<close>.  After children \<open>pre\<close> that all return \<open>(true, nil)\<close>, a child \<open>c\<close>
  that returns an error makes \<^verbatim>\<open>And\<close> return \<open>false\<close> with that error, and a child that
  returns \<open>(false, nil)\<close> makes it return \<open>(false, nil)\<close>, whatever the later children
  \<open>post\<close> are.  Dually for \<^verbatim>\<open>Or\<close> after children that all return \<open>(false, nil)\<close>, with
  a first child that returns an error or \<open>(true, nil)\<close>.
\<close>

theorem And_Or_short_circuit:
  "AndRule_Evaluate L [] headers query payload body = Inr (True, None)
   \<and> OrRule_Evaluate L [] headers query payload body = Inr (False, None)
   \<and> ((\<forall>v\<in>set pre. Rules_Evaluate L v headers query payload body = Inr (True, None)) \<longrightarrow>
        (Rules_Evaluate L c headers query payload body = Inr (rv, Some err) \<longrightarrow>
           AndRule_Evaluate L (pre @ c # post) headers query payload body = Inr (False, Some err))
        \<and> (Rules_Evaluate L c headers query payload body = Inr (False, None) \<longrightarrow>
           AndRule_Evaluate L (pre @ c # post) headers query payload body = Inr (False, None)))
   \<and> ((\<forall>v\<in>set pre. Rules_Evaluate L v headers query payload body = Inr (False, None)) \<longrightarrow>
        (Rules_Evaluate L c headers query payload body = Inr (rv, Some err) \<longrightarrow>
           OrRule_Evaluate L (pre @ c # post) headers query payload body = Inr (False, Some err))
        \<and> (Rules_Evaluate L c headers query payload body = Inr (True, None) \<longrightarrow>
           OrRule_Evaluate L (pre @ c # post) headers query payload body = Inr (True, None)))"
  by (simp add: AndRule_loop_true_prefix OrRule_loop_false_prefix)

text \<open>The last child of each list below panics when it is evaluated alone (first
  conjunct); the lists return all the same, so it is never evaluated.\<close>

theorem And_Or_short_circuit_witness:
  "Rules_Evaluate sampleLib
      (Rules None None None
        (Some \<lparr>Type = ''value'', Regex = [], Secret = [], Value = ''x'',
               Parameter = \<lparr>Source = ''payload'', Name = ''a.b''\<rparr>\<rparr>))
      None None (Some [(''a'', VStr ''x'')]) None
     = Inl InterfaceConversion
   \<and> AndRule_Evaluate sampleLib
      [Rules None None None
         (Some \<lparr>Type = ''value'', Regex = [], Secret = [], Value = ''x'',
                Parameter = \<lparr>Source = ''string'', Name = ''x''\<rparr>\<rparr>),
       Rules None None None
         (Some \<lparr>Type = ''regex'', Regex = ''('', Secret = [], Value = [],
                Parameter = \<lparr>Source = ''string'', Name = ''x''\<rparr>\<rparr>),
       Rules None None None
         (Some \<lparr>Type = ''value'', Regex = [], Secret = [], Value = ''x'',
                Parameter = \<lparr>Source = ''payload'', Name = ''a.b''\<rparr>\<rparr>)]
      None None (Some [(''a'', VStr ''x'')]) None
     = Inr (False, Some (LibError ''missing closing )''))
   \<and> AndRule_Evaluate sampleLib
      [Rules None None None
         (Some \<lparr>Type = ''value'', Regex = [], Secret = [], Value = ''x'',
                Parameter = \<lparr>Source = ''string'', Name = ''x''\<rparr>\<rparr>),
       Rules None None None
         (Some \<lparr>Type = ''value'', Regex = [], Secret = [], Value = ''y'',
                Parameter = \<lparr>Source = ''string'', Name = ''x''\<rparr>\<rparr>),
       Rules None None None
         (Some \<lparr>Type = ''value'', Regex = [], Secret = [], Value = ''x'',
                Parameter = \<lparr>Source = ''payload'', Name = ''a.b''\<rparr>\<rparr>)]
      None None (Some [(''a'', VStr ''x'')]) None
     = Inr (False, None)
   \<and> OrRule_Evaluate sampleLib
      [Rules None None None
         (Some \<lparr>Type = ''value'', Regex = [], Secret = [], Value = ''y'',
                Parameter = \<lparr>Source = ''string'', Name = ''x''\<rparr>\<rparr>),
       Rules None None None
         (Some \<lparr>Type = ''regex'', Regex = ''('', Secret = [], Value = [],
                Parameter = \<lparr>Source = ''string'', Name = ''x''\<rparr>\<rparr>),
       Rules None None None
         (Some \<lparr>Type = ''value'', Regex = [], Secret = [], Value = ''x'',
                Parameter = \<lparr>Source = ''payload'', Name = ''a.b''\<rparr>\<rparr>)]
      None None (Some [(''a'', VStr ''x'')]) None
     = Inr (False, Some (LibError ''missing closing )''))
   \<and> OrRule_Evaluate sampleLib
      [Rules None None None
         (Some \<lparr>Type = ''value'', Regex = [], Secret = [], Value = ''y'',
                Parameter = \<lparr>Source = ''string'', Name = ''x''\<rparr>\<rparr>),
       Rules None None None
         (Some \<lparr>Type = ''value'', Regex = [], Secret = [], Value = ''x'',
                Parameter = \<lparr>Source = ''string'', Name = ''x''\<rparr>\<rparr>),
       Rules None None None
         (Some \<lparr>Type = ''value'', Regex = [], Secret = [], Value = ''x'',
                Parameter = \<lparr>Source = ''payload'', Name = ''a.b''\<rparr>\<rparr>)]
      None None (Some [(''a'', VStr ''x'')]) None
     = Inr (True, None)"
  using
    And_Or_short_circuit [where L = sampleLib and headers = None and query = None
      and payload = "Some [(''a'', VStr ''x'')]" and body = None
      and pre = "[Rules None None None
         (Some \<lparr>Type = ''value'', Regex = [], Secret = [], Value = ''x'',
                Parameter = \<lparr>Source = ''string'', Name = ''x''\<rparr>\<rparr>)]"
      and c = "Rules None None None
         (Some \<lparr>Type = ''regex'', Regex = ''('', Secret = [], Value = [],
                Parameter = \<lparr>Source = ''string'', Name = ''x''\<rparr>\<rparr>)"
      and rv = False and err = "LibError ''missing closing )''"
      and post = "[Rules None None None
         (Some \<lparr>Type = ''value'', Regex = [], Secret = [], Value = ''x'',
                Parameter = \<lparr>Source = ''payload'', Name = ''a.b''\<rparr>\<rparr>)]"]
    And_Or_short_circuit [where L = sampleLib and headers = None and query = None
      and payload = "Some [(''a'', VStr ''x'')]" and body = None
      and pre = "[Rules None None None
         (Some \<lparr>Type = ''value'', Regex = [], Secret = [], Value = ''x'',
                Parameter = \<lparr>Source = ''string'', Name = ''x''\<rparr>\<rparr>)]"
      and c = "Rules None None None
         (Some \<lparr>Type = ''value'', Regex = [], Secret = [], Value = ''y'',
                Parameter = \<lparr>Source = ''string'', Name = ''x''\<rparr>\<rparr>)"
      and rv = False and err = "LibError []"
      and post = "[Rules None None None
         (Some \<lparr>Type = ''value'', Regex = [], Secret = [], Value = ''x'',
                Parameter = \<lparr>Source = ''payload'', Name = ''a.b''\<rparr>\<rparr>)]"]
    And_Or_short_circuit [where L = sampleLib and headers = None and query = None
      and payload = "Some [(''a'', VStr ''x'')]" and body = None
      and pre = "[Rules None None None
         (Some \<lparr>Type = ''value'', Regex = [], Secret = [], Value = ''y'',
                Parameter = \<lparr>Source = ''string'', Name = ''x''\<rparr>\<rparr>)]"
      and c = "Rules None None None
         (Some \<lparr>Type = ''regex'', Regex = ''('', Secret = [], Value = [],
                Parameter = \<lparr>Source = ''string'', Name = ''x''\<rparr>\<rparr>)"
      and rv = False and err = "LibError ''missing closing )''"
      and post = "[Rules None None None
         (Some \<lparr>Type = ''value'', Regex = [], Secret = [], Value = ''x'',
                Parameter = \<lparr>Source = ''payload'', Name = ''a.b''\<rparr>\<rparr>)]"]
    And_Or_short_circuit [where L = sampleLib and headers = None and query = None
      and payload = "Some [(''a'', VStr ''x'')]" and body = None
      and pre = "[Rules None None None
         (Some \<lparr>Type = ''value'', Regex = [], Secret = [], Value = ''y'',
                Parameter = \<lparr>Source = ''string'', Name = ''x''\<rparr>\<rparr>)]"
      and c = "Rules None None None
         (Some \<lparr>Type = ''value'', Regex = [], Secret = [], Value = ''x'',
                Parameter = \<lparr>Source = ''string'', Name = ''x''\<rparr>\<rparr>)"
      and rv = False and err = "LibError []"
      and post = "[Rules None None None
         (Some \<lparr>Type = ''value'', Regex = [], Secret = [], Value = ''x'',
                Parameter = \<lparr>Source = ''payload'', Name = ''a.b''\<rparr>\<rparr>)]"]
  by (simp add: lib_eval)

text \<open>
  Claim C7.  \<^verbatim>\<open>Rules.Evaluate\<close> evaluates the first populated field in the order
  \<^verbatim>\<open>And\<close>, \<^verbatim>\<open>Or\<close>, \<^verbatim>\<open>Not\<close>, \<^verbatim>\<open>Match\<close>: its result is the result of that field alone.
  A node with no field populated evaluates to \<open>(false, nil)\<close>.
\<close>

theorem Rules_Evaluate_priority:
  "(And r \<noteq> None \<longrightarrow>
      Rules_Evaluate L r headers query payload body =
        AndRule_Evaluate L (the (And r)) headers query payload body)
   \<and> (And r = None \<and> Or r \<noteq> None \<longrightarrow>
      Rules_Evaluate L r headers query payload body =
        OrRule_Evaluate L (the (Or r)) headers query payload body)
   \<and> (And r = None \<and> Or r = None \<and> Not' r \<noteq> None \<longrightarrow>
      Rules_Evaluate L r headers query payload body =
        NotRule_Evaluate L (the (Not' r)) headers query payload body)
   \<and> (And r = None \<and> Or r = None \<and> Not' r = None \<and> Match r \<noteq> None \<longrightarrow>
      Rules_Evaluate L r headers query payload body =
        MatchRule_Evaluate L (the (Match r)) headers query payload body)
   \<and> (And r = None \<and> Or r = None \<and> Not' r = None \<and> Match r = None \<longrightarrow>
      Rules_Evaluate L r headers query payload body = Inr (False, None))"
  by (cases r) auto

text \<open>An empty \<^verbatim>\<open>And\<close> beside an empty \<^verbatim>\<open>Or\<close> is \<open>true\<close>; an empty \<^verbatim>\<open>Or\<close> beside a
  \<^verbatim>\<open>Not\<close> is \<open>false\<close>; a \<^verbatim>\<open>Not\<close> of the empty node beside a \<^verbatim>\<open>Match\<close> that fails is
  \<open>true\<close>.\<close>

theorem Rules_Evaluate_priority_witness:
  "And (Rules (Some []) (Some []) None None) \<noteq> None
   \<and> Rules_Evaluate sampleLib (Rules (Some []) (Some []) None None) None None None None
       = Inr (True, None)
   \<and> Rules_Evaluate sampleLib (Rules None (Some [])
         (Some (Rules None None None None)) None) None None None None
       = Inr (False, None)
   \<and> Rules_Evaluate sampleLib (Rules None None (Some (Rules None None None None))
         (Some \<lparr>Type = ''value'', Regex = [], Secret = [], Value = ''y'',
                Parameter = \<lparr>Source = ''string'', Name = ''x''\<rparr>\<rparr>)) None None None None
       = Inr (True, None)
   \<and> Rules_Evaluate sampleLib (Rules None None None
         (Some \<lparr>Type = ''value'', Regex = [], Secret = [], Value = ''x'',
                Parameter = \<lparr>Source = ''string'', Name = ''x''\<rparr>\<rparr>)) None None None None
       = Inr (True, None)
   \<and> Rules_Evaluate sampleLib (Rules None None None None) None None None None
       = Inr (False, None)"
  using
    Rules_Evaluate_priority [of "Rules (Some []) (Some []) None None" sampleLib None None None None]
    Rules_Evaluate_priority [of "Rules None (Some []) (Some (Rules None None None None)) None"
      sampleLib None None None None]
    Rules_Evaluate_priority [of "Rules None None (Some (Rules None None None None))
         (Some \<lparr>Type = ''value'', Regex = [], Secret = [], Value = ''y'',
                Parameter = \<lparr>Source = ''string'', Name = ''x''\<rparr>\<rparr>)"
      sampleLib None None None None]
    Rules_Evaluate_priority [of "Rules None None None
         (Some \<lparr>Type = ''value'', Regex = [], Secret = [], Value = ''x'',
                Parameter = \<lparr>Source = ''string'', Name = ''x''\<rparr>\<rparr>)"
      sampleLib None None None None]
    Rules_Evaluate_priority [of "Rules None None None None" sampleLib None None None None]
  by (simp add: lib_eval)

text \<open>
  Claim C8.  A match whose type is none of \<open>value\<close>, \<open>regex\<close> and
  \<open>payload-hash-sha1\<close> returns \<open>(false, nil)\<close> whatever the resolver returned, found or
  not (a panic of the resolver is not a return).  An argument whose source is none of
  the seven constants resolves to the empty string, not found.
\<close>

theorem unknown_enumeration_falls_through:
  "(Type r \<notin> {MatchValue, MatchRegex, MatchHashSHA1} \<longrightarrow>
      Argument_Get L (Parameter r) headers query payload = Inr (arg, ok) \<longrightarrow>
      MatchRule_Evaluate L r headers query payload body = Inr (False, None))
   \<and> (Source a \<notin> {SourceHeader, SourceQuery, SourcePayload, SourceString,
                    SourceEntirePayload, SourceEntireQuery, SourceEntireHeaders} \<longrightarrow>
      Argument_Get L a headers query payload = Inr ([], False))"
  by (simp add: MatchRule_Evaluate_def Argument_Get_def fromSource_def)

text \<open>The type \<open>equals\<close> on an argument that resolves and would be equal; the source
  \<open>body\<close> on trees that all hold the name.\<close>

theorem unknown_enumeration_falls_through_witness:
  "Type \<lparr>Type = ''equals'', Regex = [], Secret = [], Value = ''x'',
         Parameter = \<lparr>Source = ''string'', Name = ''x''\<rparr>\<rparr>
     \<notin> {MatchValue, MatchRegex, MatchHashSHA1}
   \<and> Argument_Get sampleLib \<lparr>Source = ''string'', Name = ''x''\<rparr> None None None = Inr (''x'', True)
   \<and> MatchRule_Evaluate sampleLib
        \<lparr>Type = ''equals'', Regex = [], Secret = [], Value = ''x'',
         Parameter = \<lparr>Source = ''string'', Name = ''x''\<rparr>\<rparr> None None None None
       = Inr (False, None)
   \<and> Source \<lparr>Source = ''body'', Name = ''a''\<rparr>
     \<notin> {SourceHeader, SourceQuery, SourcePayload, SourceString,
        SourceEntirePayload, SourceEntireQuery, SourceEntireHeaders}
   \<and> Argument_Get sampleLib \<lparr>Source = ''body'', Name = ''a''\<rparr>
        (Some [(''a'', VStr ''x'')]) (Some [(''a'', VStr ''x'')]) (Some [(''a'', VStr ''x'')])
       = Inr ([], False)"
  using
    unknown_enumeration_falls_through [of
      "\<lparr>Type = ''equals'', Regex = [], Secret = [], Value = ''x'',
        Parameter = \<lparr>Source = ''string'', Name = ''x''\<rparr>\<rparr>"
      sampleLib None None None "''x''" True None
      "\<lparr>Source = ''body'', Name = ''a''\<rparr>"]
    unknown_enumeration_falls_through [of
      "\<lparr>Type = ''equals'', Regex = [], Secret = [], Value = ''x'',
        Parameter = \<lparr>Source = ''string'', Name = ''x''\<rparr>\<rparr>"
      sampleLib "Some [(''a'', VStr ''x'')]" "Some [(''a'', VStr ''x'')]" "Some [(''a'', VStr ''x'')]"
      "''x''" True None "\<lparr>Source = ''body'', Name = ''a''\<rparr>"]
  by (simp add: lib_eval)

section \<open>Hook extraction\<close>

lemma ExtractCommandArguments_loop_resolved:
  "map (\<lambda>a. Argument_Get L a headers query payload) pre = map (\<lambda>v. Inr (v, True)) vs \<Longrightarrow>
     ExtractCommandArguments_loop L args (pre @ rest) headers query payload =
     ExtractCommandArguments_loop L (args @ vs) rest headers query payload"
proof (induction pre arbitrary: args vs)
  case Nil
  then show ?case by simp
next
  case (Cons a pre)
  then obtain v vs' where vs: "vs = v # vs'"
    by (cases vs) auto
  with Cons.prems have a: "Argument_Get L a headers query payload = Inr (v, True)"
    and rest: "map (\<lambda>a. Argument_Get L a headers query payload) pre = map (\<lambda>v. Inr (v, True)) vs'"
    by simp_all
  show ?case
    using Cons.IH [OF rest, of "args @ [v]"] a vs by simp
qed

lemma ExtractCommandArgumentsForEnv_loop_resolved:
  "map (\<lambda>a. Argument_Get L a headers query payload) pre = map (\<lambda>v. Inr (v, True)) vs \<Longrightarrow>
     ExtractCommandArgumentsForEnv_loop L args (pre @ rest) headers query payload =
     ExtractCommandArgumentsForEnv_loop L
       (args @ map2 (\<lambda>a v. ''HOOK_'' @ Name a @ ''='' @ v) pre vs) rest headers query payload"
proof (induction pre arbitrary: args vs)
  case Nil
  then show ?case by simp
next
  case (Cons a pre)
  then obtain v vs' where vs: "vs = v # vs'"
    by (cases vs) auto
  with Cons.prems have a: "Argument_Get L a headers query payload = Inr (v, True)"
    and rest: "map (\<lambda>a. Argument_Get L a headers query payload) pre = map (\<lambda>v. Inr (v, True)) vs'"
    by simp_all
  show ?case
    using Cons.IH [OF rest, of "args @ [''HOOK_'' @ Name a @ ''='' @ v]"] a vs
    by (simp add: EnvNamespace_def)
qed

text \<open>
  Claim C9.  Let the arguments \<open>pre\<close> resolve, in order, to the strings \<open>vs\<close>.  When
  they are all the arguments, \<^verbatim>\<open>ExtractCommandArguments\<close> returns the command followed by
  \<open>vs\<close> and \<^verbatim>\<open>ExtractCommandArgumentsForEnv\<close> returns one entry \<open>HOOK_name=value\<close> for
  each, both with a \<^verbatim>\<open>nil\<close> error.  When the next argument \<open>a\<close> does not resolve, the
  first returns the command, \<open>vs\<close> and an empty string, the second returns the entries
  of \<open>pre\<close> and nothing for \<open>a\<close>; both return the \<^verbatim>\<open>ArgumentError\<close> of \<open>a\<close>, whatever
  arguments \<open>post\<close> follow.
\<close>

theorem extraction_stops_at_first_unresolved:
  "map (\<lambda>a. Argument_Get L a headers query payload) pre = map (\<lambda>v. Inr (v, True)) vs \<longrightarrow>
     (PassArgumentsToCommand h = pre \<longrightarrow>
        ExtractCommandArguments L h headers query payload = Inr (ExecuteCommand h # vs, None))
   \<and> (PassArgumentsToCommand h = pre @ a # post \<longrightarrow>
        Argument_Get L a headers query payload = Inr (x, False) \<longrightarrow>
        ExtractCommandArguments L h headers query payload =
          Inr (ExecuteCommand h # vs @ [''''], Some (ArgumentError a)))
   \<and> (PassEnvironmentToCommand h = pre \<longrightarrow>
        ExtractCommandArgumentsForEnv L h headers query payload =
          Inr (map2 (\<lambda>a v. ''HOOK_'' @ Name a @ ''='' @ v) pre vs, None))
   \<and> (PassEnvironmentToCommand h = pre @ a # post \<longrightarrow>
        Argument_Get L a headers query payload = Inr (x, False) \<longrightarrow>
        ExtractCommandArgumentsForEnv L h headers query payload =
          Inr (map2 (\<lambda>a v. ''HOOK_'' @ Name a @ ''='' @ v) pre vs, Some (ArgumentError a)))"
proof (intro impI conjI)
  assume pre: "map (\<lambda>a. Argument_Get L a headers query payload) pre = map (\<lambda>v. Inr (v, True)) vs"
  note cmd = ExtractCommandArguments_loop_resolved [OF pre]
  note env = ExtractCommandArgumentsForEnv_loop_resolved [OF pre]
  {
    assume "PassArgumentsToCommand h = pre"
    then show "ExtractCommandArguments L h headers query payload = Inr (ExecuteCommand h # vs, None)"
      using cmd [of "[ExecuteCommand h]" "[]"] by (simp add: ExtractCommandArguments_def)
  }
  {
    assume "PassArgumentsToCommand h = pre @ a # post"
      and "Argument_Get L a headers query payload = Inr (x, False)"
    then show "ExtractCommandArguments L h headers query payload =
        Inr (ExecuteCommand h # vs @ [''''], Some (ArgumentError a))"
      using cmd [of "[ExecuteCommand h]" "a # post"] by (simp add: ExtractCommandArguments_def)
  }
  {
    assume "PassEnvironmentToCommand h = pre"
    then show "ExtractCommandArgumentsForEnv L h headers query payload =
        Inr (map2 (\<lambda>a v. ''HOOK_'' @ Name a @ ''='' @ v) pre vs, None)"
      using env [of "[]" "[]"] by (simp add: ExtractCommandArgumentsForEnv_def)
  }
  {
    assume "PassEnvironmentToCommand h = pre @ a # post"
      and "Argument_Get L a headers query payload = Inr (x, False)"
    then show "ExtractCommandArgumentsForEnv L h headers query payload =
        Inr (map2 (\<lambda>a v. ''HOOK_'' @ Name a @ ''='' @ v) pre vs, Some (ArgumentError a))"
      using env [of "[]" "a # post"] by (simp add: ExtractCommandArgumentsForEnv_def)
  }
qed

text \<open>Three arguments of which the second reads \<open>ref\<close> from the payload, on a payload
  without \<open>ref\<close> and on one with it.\<close>

theorem extraction_stops_at_first_unresolved_witness:
  "ExtractCommandArguments sampleLib
      (zeroHook\<lparr>ExecuteCommand := ''/bin/deploy'',
        PassArgumentsToCommand :=
          [\<lparr>Source = ''string'', Name = ''one''\<rparr>, \<lparr>Source = ''payload'', Name = ''ref''\<rparr>,
           \<lparr>Source = ''string'', Name = ''three''\<rparr>]\<rparr>)
      None None (Some [])
     = Inr ([''/bin/deploy'', ''one'', ''''], Some (ArgumentError \<lparr>Source = ''payload'', Name = ''ref''\<rparr>))
   \<and> ExtractCommandArgumentsForEnv sampleLib
      (zeroHook\<lparr>PassEnvironmentToCommand :=
          [\<lparr>Source = ''string'', Name = ''one''\<rparr>, \<lparr>Source = ''payload'', Name = ''ref''\<rparr>,
           \<lparr>Source = ''string'', Name = ''three''\<rparr>]\<rparr>)
      None None (Some [])
     = Inr ([''HOOK_one=one''], Some (ArgumentError \<lparr>Source = ''payload'', Name = ''ref''\<rparr>))
   \<and> ExtractCommandArguments sampleLib
      (zeroHook\<lparr>ExecuteCommand := ''/bin/deploy'',
        PassArgumentsToCommand :=
          [\<lparr>Source = ''string'', Name = ''one''\<rparr>, \<lparr>Source = ''payload'', Name = ''ref''\<rparr>,
           \<lparr>Source = ''string'', Name = ''three''\<rparr>]\<rparr>)
      None None (Some [(''ref'', VStr ''main'')])
     = Inr ([''/bin/deploy'', ''one'', ''main'', ''three''], None)
   \<and> ExtractCommandArgumentsForEnv sampleLib
      (zeroHook\<lparr>PassEnvironmentToCommand :=
          [\<lparr>Source = ''string'', Name = ''one''\<rparr>, \<lparr>Source = ''payload'', Name = ''ref''\<rparr>,
           \<lparr>Source = ''string'', Name = ''three''\<rparr>]\<rparr>)
      None None (Some [(''ref'', VStr ''main'')])
     = Inr ([''HOOK_one=one'', ''HOOK_ref=main'', ''HOOK_three=three''], None)"
  using
    extraction_stops_at_first_unresolved [where L = sampleLib and headers = None and query = None
      and payload = "Some []" and pre = "[\<lparr>Source = ''string'', Name = ''one''\<rparr>]"
      and vs = "[''one'']" and a = "\<lparr>Source = ''payload'', Name = ''ref''\<rparr>"
      and post = "[\<lparr>Source = ''string'', Name = ''three''\<rparr>]" and x = "[]"
      and h = "zeroHook\<lparr>ExecuteCommand := ''/bin/deploy'',
        PassArgumentsToCommand :=
          [\<lparr>Source = ''string'', Name = ''one''\<rparr>, \<lparr>Source = ''payload'', Name = ''ref''\<rparr>,
           \<lparr>Source = ''string'', Name = ''three''\<rparr>]\<rparr>"]
    extraction_stops_at_first_unresolved [where L = sampleLib and headers = None and query = None
      and payload = "Some []" and pre = "[\<lparr>Source = ''string'', Name = ''one''\<rparr>]"
      and vs = "[''one'']" and a = "\<lparr>Source = ''payload'', Name = ''ref''\<rparr>"
      and post = "[\<lparr>Source = ''string'', Name = ''three''\<rparr>]" and x = "[]"
      and h = "zeroHook\<lparr>PassEnvironmentToCommand :=
          [\<lparr>Source = ''string'', Name = ''one''\<rparr>, \<lparr>Source = ''payload'', Name = ''ref''\<rparr>,
           \<lparr>Source = ''string'', Name = ''three''\<rparr>]\<rparr>"]
    extraction_stops_at_first_unresolved [where L = sampleLib and headers = None and query = None
      and payload = "Some [(''ref'', VStr ''main'')]"
      and pre = "[\<lparr>Source = ''string'', Name = ''one''\<rparr>, \<lparr>Source = ''payload'', Name = ''ref''\<rparr>,
           \<lparr>Source = ''string'', Name = ''three''\<rparr>]"
      and vs = "[''one'', ''main'', ''three'']" and a = "\<lparr>Source = ''payload'', Name = ''ref''\<rparr>"
      and post = "[]" and x = "[]"
      and h = "zeroHook\<lparr>ExecuteCommand := ''/bin/deploy'',
        PassArgumentsToCommand :=
          [\<lparr>Source = ''string'', Name = ''one''\<rparr>, \<lparr>Source = ''payload'', Name = ''ref''\<rparr>,
           \<lparr>Source = ''string'', Name = ''three''\<rparr>]\<rparr>"]
    extraction_stops_at_first_unresolved [where L = sampleLib and headers = None and query = None
      and payload = "Some [(''ref'', VStr ''main'')]"
      and pre = "[\<lparr>Source = ''string'', Name = ''one''\<rparr>, \<lparr>Source = ''payload'', Name = ''ref''\<rparr>,
           \<lparr>Source = ''string'', Name = ''three''\<rparr>]"
      and vs = "[''one'', ''main'', ''three'']" and a = "\<lparr>Source = ''payload'', Name = ''ref''\<rparr>"
      and post = "[]" and x = "[]"
      and h = "zeroHook\<lparr>PassEnvironmentToCommand :=
          [\<lparr>Source = ''string'', Name = ''one''\<rparr>, \<lparr>Source = ''payload'', Name = ''ref''\<rparr>,
           \<lparr>Source = ''string'', Name = ''three''\<rparr>]\<rparr>"]
  by (simp add: lib_eval zeroHook_def)

text \<open>
  For the splice of \<^verbatim>\<open>ParseJSONParameters\<close>: a name that the resolver finds in a tree is
  either replaced through the pointer to that tree, or, when it has a dot, makes
  \<^verbatim>\<open>ReplaceParameter\<close> panic.  The call never returns \<open>false\<close> there.
\<close>

lemma ReplaceParameter_after_GetParameter:
  assumes "GetParameter s (VMap m) = Inr (x, True)"
  shows "ReplaceParameter s (VPtr m) v = Inl InterfaceConversion
         \<or> ReplaceParameter s (VPtr m) v = Inr (True, VPtr (AList.update s v m))"
proof (cases "CHR ''.'' \<in> set s")
  case True
  then show ?thesis by (simp only: ReplaceParameter_dotted_pointer simp_thms)
next
  case False
  with assms show ?thesis
    by (auto simp: SplitN_2_def split: option.splits)
qed

lemma Argument_Get_from_tree:
  assumes "Argument_Get L a headers query payload = Inr (arg, True)"
    and "Source a \<in> {SourceHeader, SourcePayload, SourceQuery}"
  shows "\<exists>m. (if Source a = SourceHeader then headers
              else if Source a = SourcePayload then payload else query) = Some m"
  using assms
  by (auto simp: Argument_Get_def fromSource_def source_defs split: option.splits if_splits)

lemma ParseJSONParameters_dotted_name_panics:
  assumes "JSONStringParameters h = a # rest"
    and "Source a \<in> {SourceHeader, SourcePayload, SourceQuery}"
    and "CHR ''.'' \<in> set (Name a)"
    and "Argument_Get L a headers query payload = Inr (arg, True)"
    and "json_Decode L arg = Inr newArg"
  shows "ParseJSONParameters L h headers query payload = Inl InterfaceConversion"
proof -
  from Argument_Get_from_tree [OF assms(4) assms(2)] obtain m where
    m: "(if Source a = SourceHeader then headers
         else if Source a = SourcePayload then payload else query) = Some m"
    by blast
  have sp: "spliced a (Some m) newArg = Inl InterfaceConversion"
    by (simp only: spliced_def ReplaceParameter_dotted_pointer [OF assms(3)]
        option.case sum.case)
  from assms(2) m sp show ?thesis
    by (auto simp: ParseJSONParameters_def assms(1) assms(4) assms(5) source_defs
        split: if_splits)
qed

text \<open>
  Claim C10, a splice that fails is ignored.  The argument \<open>a.0\<close> of the payload
  \<open>{a: ["{}"]}\<close> resolves to the string \<open>{}\<close>, which decodes to an object, and its last
  segment names no key of a map, so that the replacement cannot succeed.
  \<^verbatim>\<open>ParseJSONParameters\<close> does not return \<^verbatim>\<open>nil\<close> there: \<^verbatim>\<open>ReplaceParameter\<close> is called with
  the pointer to the payload and a dotted name, and panics on its assertion of the map
  type.
\<close>

theorem ParseJSONParameters_failed_splice_panics:
  "Argument_Get sampleLib \<lparr>Source = ''payload'', Name = ''a.0''\<rparr>
      None None (Some [(''a'', VSlice [VStr ''{}''])])
     = Inr (''{}'', True)
   \<and> json_Decode sampleLib ''{}'' = Inr []
   \<and> ParseJSONParameters sampleLib
      (zeroHook\<lparr>JSONStringParameters := [\<lparr>Source = ''payload'', Name = ''a.0''\<rparr>]\<rparr>)
      None None (Some [(''a'', VSlice [VStr ''{}''])])
     = Inl InterfaceConversion"
proof -
  have 1: "JSONStringParameters (zeroHook\<lparr>JSONStringParameters := [\<lparr>Source = ''payload'', Name = ''a.0''\<rparr>]\<rparr>)
      = \<lparr>Source = ''payload'', Name = ''a.0''\<rparr> # []"
    by simp
  have 2: "Source \<lparr>Source = ''payload'', Name = ''a.0''\<rparr> \<in> {SourceHeader, SourcePayload, SourceQuery}"
    by (simp add: source_defs)
  have 3: "CHR ''.'' \<in> set (Name \<lparr>Source = ''payload'', Name = ''a.0''\<rparr>)"
    by simp
  have 4: "Argument_Get sampleLib \<lparr>Source = ''payload'', Name = ''a.0''\<rparr>
      None None (Some [(''a'', VSlice [VStr ''{}''])]) = Inr (''{}'', True)"
    by (simp add: lib_eval index_eval)
  have 5: "json_Decode sampleLib ''{}'' = Inr []"
    by (simp add: sampleLib_def)
  from ParseJSONParameters_dotted_name_panics [OF 1 2 3 4 5] 4 5 show ?thesis
    by simp
qed

end
